theory Spec2Isabelle
  imports Complex_Main "HOL-Library.Char_ord" "HOL-Library.List_Lexorder"
begin

section \<open>Strings\<close>

text \<open>
  Ticker symbols are modelled as lists of 8-bit characters read as ASCII: case mapping acts
  on the letters \<open>a..z\<close> and \<open>A..Z\<close> only, and white space is the set of ASCII code
  points that Python's \<^verbatim>\<open>str.strip()\<close> removes (9 to 13 and 28 to 32). Strings are
  ordered lexicographically by code point, as Python's \<^verbatim>\<open>sorted\<close> orders them.
\<close>

definition is_space :: "char \<Rightarrow> bool" where
  "is_space c = (let n = (of_char c :: nat) in (9 \<le> n \<and> n \<le> 13) \<or> (28 \<le> n \<and> n \<le> 32))"

definition upper_char :: "char \<Rightarrow> char" where
  "upper_char c = (let n = (of_char c :: nat) in if 97 \<le> n \<and> n \<le> 122 then char_of (n - 32) else c)"


definition upper :: "string \<Rightarrow> string" where
  "upper s = map upper_char s"


definition strip :: "string \<Rightarrow> string" where
  "strip s = rev (dropWhile is_space (rev (dropWhile is_space s)))"

definition endswith :: "string \<Rightarrow> string \<Rightarrow> bool" where
  "endswith s suf = (length suf \<le> length s \<and> drop (length s - length suf) s = suf)"

text \<open>
  Python's \<^verbatim>\<open>xs[i:j]\<close>: a negative bound counts from the end, every bound is clamped into
  the list, and the slice is empty when the start is not before the stop.
\<close>

definition slice_bound :: "nat \<Rightarrow> int \<Rightarrow> nat" where
  "slice_bound n i = (if i < 0 then nat (max 0 (int n + i)) else min (nat i) n)"

definition py_slice :: "'a list \<Rightarrow> int \<Rightarrow> int \<Rightarrow> 'a list" where
  "py_slice xs i j =
     (let a = slice_bound (length xs) i; b = slice_bound (length xs) j
      in take (b - a) (drop a xs))"

section \<open>Symbol normalizer\<close>

text \<open>
  \<^verbatim>\<open>map_to_yahoo\<close> of \<^verbatim>\<open>app.py\<close>. For a \<^verbatim>\<open>str\<close> argument \<^verbatim>\<open>symbol or ""\<close> is the
  argument itself.
\<close>

definition map_to_yahoo :: "string \<Rightarrow> string" where
  "map_to_yahoo symbol =
     (let s = upper (strip symbol) in
      if s = [] then s
      else if endswith s '':TSXV'' then py_slice s 0 (- 5) @ ''.V''
      else if endswith s '':TSX'' then py_slice s 0 (- 4) @ ''.TO''
      else if CHR ''.'' \<in> set s then s else s @ ''.TO'')"

section \<open>Tables\<close>

text \<open>
  A pandas \<^verbatim>\<open>DataFrame\<close>: the name of its index, the index labels (calendar days and row
  positions are both integers) and the columns in order, each a label with its cells. A
  cell is missing (\<^verbatim>\<open>NaN\<close>), a price, a text or an index label that
  \<^verbatim>\<open>reset_index\<close> has moved into a column. Prices are real numbers: the code only
  compares them, and the comparisons of finite floats are those of the reals.
\<close>

datatype cell = NaN | Num real | Str string | Ix int

datatype py_error = KeyError | ValueError | OSError

record 'l frame =
  index_name :: "string option"
  index :: "int list"
  columns :: "('l \<times> cell list) list"

definition labels :: "'l frame \<Rightarrow> 'l list" where
  "labels df = map fst (columns df)"

definition empty_frame :: "'l frame" where
  "empty_frame = \<lparr>index_name = None, index = [], columns = []\<rparr>"

text \<open>\<^verbatim>\<open>DataFrame.empty\<close>: one of the two axes has length 0.\<close>

definition frame_empty :: "'l frame \<Rightarrow> bool" where
  "frame_empty df = (index df = [] \<or> columns df = [])"

text \<open>The rows of a column that a list of booleans selects.\<close>

definition select_rows :: "bool list \<Rightarrow> 'a list \<Rightarrow> 'a list" where
  "select_rows flags xs = map snd (filter fst (zip flags xs))"

text \<open>
  \<^verbatim>\<open>reset_index()\<close>: the index becomes the first column, under its name (\<^verbatim>\<open>index\<close>, or
  \<^verbatim>\<open>level_0\<close> when that is taken, for an index without a name); inserting a label that
  is already a column raises \<^verbatim>\<open>ValueError\<close>. The new index numbers the rows.
\<close>

definition reset_index :: "string frame \<Rightarrow> py_error + string frame" where
  "reset_index df =
     (let name = (case index_name df of
                    Some n \<Rightarrow> n
                  | None \<Rightarrow> if ''index'' \<in> set (labels df) then ''level_0'' else ''index'')
      in if name \<in> set (labels df) then Inl ValueError
         else Inr \<lparr>index_name = None,
                   index = map int [0..<length (index df)],
                   columns = (name, map Ix (index df)) # columns df\<rparr>)"

text \<open>
  \<^verbatim>\<open>melt(id_vars, var_name, value_name)\<close> of pandas 2: a table that already has a column
  labelled \<^verbatim>\<open>value_name\<close> is refused with \<^verbatim>\<open>ValueError\<close>, a missing identifier column
  with \<^verbatim>\<open>KeyError\<close>; otherwise every other column, in order, contributes one row per
  row of the table: the identifier, the column's label, the cell.
\<close>

definition melt :: "string \<Rightarrow> string \<Rightarrow> string \<Rightarrow> string frame \<Rightarrow> py_error + string frame" where
  "melt id_vars var_name value_name df =
     (if value_name \<in> set (labels df) then Inl ValueError
      else case map_of (columns df) id_vars of
        None \<Rightarrow> Inl KeyError
      | Some ids \<Rightarrow>
          let value_vars = filter (\<lambda>c. fst c \<noteq> id_vars) (columns df);
              n = length (index df)
          in Inr \<lparr>index_name = None,
                    index = map int [0..<n * length value_vars],
                    columns =
                      [(id_vars, concat (map (\<lambda>c. ids) value_vars)),
                       (var_name, concat (map (\<lambda>c. replicate n (Str (fst c))) value_vars)),
                       (value_name, concat (map snd value_vars))]\<rparr>)"

text \<open>\<^verbatim>\<open>dropna(subset=[c])\<close>: the rows whose cell in column \<open>c\<close> is missing go; the others keep
  their index labels.\<close>

definition dropna_subset :: "string \<Rightarrow> string frame \<Rightarrow> py_error + string frame" where
  "dropna_subset c df =
     (case map_of (columns df) c of
        None \<Rightarrow> Inl KeyError
      | Some vs \<Rightarrow>
          let keep = map (\<lambda>v. v \<noteq> NaN) vs
          in Inr \<lparr>index_name = index_name df,
                    index = select_rows keep (index df),
                    columns = map (\<lambda>c. (fst c, select_rows keep (snd c))) (columns df)\<rparr>)"

section \<open>Reshaper\<close>

definition tidy_from_wide :: "string frame \<Rightarrow> py_error + string frame" where
  "tidy_from_wide adj =
     (case reset_index adj of
        Inl e \<Rightarrow> Inl e
      | Inr r \<Rightarrow>
          (case melt ''Date'' ''Ticker'' ''Adj Close'' r of
             Inl e \<Rightarrow> Inl e
           | Inr t \<Rightarrow> dropna_subset ''Adj Close'' t))"

text \<open>A wide table of one day and one ticker, and its tidy form.\<close>

definition wide_example :: "string frame" where
  "wide_example = \<lparr>index_name = Some ''Date'', index = [0], columns = [(''RY.TO'', [Num 100])]\<rparr>"

definition tidy_example :: "string frame" where
  "tidy_example =
     \<lparr>index_name = None, index = [0],
      columns = [(''Date'', [Ix 0]), (''Ticker'', [Str ''RY.TO'']), (''Adj Close'', [Num 100])]\<rparr>"

section \<open>Price downloader\<close>

text \<open>
  What \<^verbatim>\<open>yf.download\<close> returns: a table whose columns are labelled by pairs (ticker,
  field), a \<^verbatim>\<open>MultiIndex\<close>, or by the field alone. The provider is a parameter of the
  model.
\<close>

datatype fetched = MultiIndex "(string \<times> string) frame" | FlatIndex "string frame"

definition sort_index :: "'l frame \<Rightarrow> 'l frame" where
  "sort_index df =
     \<lparr>index_name = index_name df,
      index = sort (index df),
      columns = map (\<lambda>c. (fst c, map snd (sort_key fst (zip (index df) (snd c))))) (columns df)\<rparr>"

text \<open>\<^verbatim>\<open>dropna(axis=1, how="all")\<close>: the columns without any price go.\<close>

definition dropna_all_columns :: "'l frame \<Rightarrow> 'l frame" where
  "dropna_all_columns df =
     \<lparr>index_name = index_name df,
      index = index df,
      columns = filter (\<lambda>c. \<not> list_all (\<lambda>v. v = NaN) (snd c)) (columns df)\<rparr>"

fun ffill_from :: "cell \<Rightarrow> cell list \<Rightarrow> cell list" where
  "ffill_from prev [] = []"
| "ffill_from prev (v # vs) =
     (if v = NaN then prev # ffill_from prev vs else v # ffill_from v vs)"

definition ffill :: "'l frame \<Rightarrow> 'l frame" where
  "ffill df =
     \<lparr>index_name = index_name df,
      index = index df,
      columns = map (\<lambda>c. (fst c, ffill_from NaN (snd c))) (columns df)\<rparr>"

definition download_prices ::
  "(string list \<Rightarrow> int \<Rightarrow> int \<Rightarrow> fetched) \<Rightarrow> string list \<Rightarrow> int \<Rightarrow> int \<Rightarrow> py_error + string frame" where
  "download_prices yf_download tickers start end' =
     (case tickers of
        [] \<Rightarrow> Inr empty_frame
      | only # rest \<Rightarrow>
          (case yf_download tickers start end' of
             MultiIndex data \<Rightarrow>
               let cols = filter (\<lambda>c. snd (fst c) = ''Adj Close'') (columns data);
                   out = \<lparr>index_name = index_name data, index = index data,
                          columns = map (\<lambda>c. (fst (fst c), snd c)) cols\<rparr>
               in Inr (ffill (dropna_all_columns (sort_index out)))
           | FlatIndex data \<Rightarrow>
               (case map_of (columns data) ''Adj Close'' of
                  None \<Rightarrow> Inl KeyError
                | Some vs \<Rightarrow>
                    let out = \<lparr>index_name = index_name data, index = index data,
                               columns = [(only, vs)]\<rparr>
                    in Inr (ffill (dropna_all_columns (sort_index out))))))"

section \<open>Ticker list loader\<close>











section \<open>Filter\<close>

text \<open>
  The filter and the paginator read the tidy table row by row: it is a list of observations,
  one per day and ticker with a price. \<open>observations\<close> reads them off the table that the
  reshaper returns.
\<close>

record obs =
  Date :: int
  Ticker :: string
  Adj_Close :: real

fun observation :: "cell \<Rightarrow> cell \<Rightarrow> cell \<Rightarrow> obs list" where
  "observation (Ix d) (Str t) (Num p) = [\<lparr>Date = d, Ticker = t, Adj_Close = p\<rparr>]"
| "observation d t p = []"

definition column :: "string \<Rightarrow> string frame \<Rightarrow> cell list" where
  "column c df = (case map_of (columns df) c of None \<Rightarrow> [] | Some vs \<Rightarrow> vs)"

definition observations :: "string frame \<Rightarrow> obs list" where
  "observations df =
     concat (map (\<lambda>r. observation (fst r) (fst (snd r)) (snd (snd r)))
       (zip (column ''Date'' df) (zip (column ''Ticker'' df) (column ''Adj Close'' df))))"

text \<open>\<^verbatim>\<open>tidy.groupby("Ticker")["Adj Close"].max()\<close>: the tickers in sorted order, each with
  the largest of its prices.\<close>

definition max_by_ticker :: "obs list \<Rightarrow> (string \<times> real) list" where
  "max_by_ticker tidy =
     map (\<lambda>t. (t, Max (set (map Adj_Close (filter (\<lambda>r. Ticker r = t) tidy)))))
       (sort (remdups (map Ticker tidy)))"

definition to_remove :: "int \<Rightarrow> obs list \<Rightarrow> string list" where
  "to_remove filter_max tidy =
     map fst (filter (\<lambda>g. snd g > real_of_int filter_max) (max_by_ticker tidy))"

definition tidy_filtered :: "int \<Rightarrow> obs list \<Rightarrow> obs list" where
  "tidy_filtered filter_max tidy =
     filter (\<lambda>r. Ticker r \<notin> set (to_remove filter_max tidy)) tidy"

section \<open>Paginator\<close>

definition all_tickers :: "obs list \<Rightarrow> string list" where
  "all_tickers filtered = sort (remdups (map Ticker filtered))"

definition has_keep :: "string list \<Rightarrow> string \<Rightarrow> bool" where
  "has_keep tickers always_keep = (always_keep \<in> set tickers)"

definition others :: "string list \<Rightarrow> string \<Rightarrow> string list" where
  "others tickers always_keep = filter (\<lambda>t. t \<noteq> always_keep) tickers"

definition per_page :: "string list \<Rightarrow> string \<Rightarrow> int \<Rightarrow> int" where
  "per_page tickers always_keep page_size =
     (if has_keep tickers always_keep then page_size - 1 else page_size)"

text \<open>
  \<^verbatim>\<open>max(1, math.ceil(len(others) / max(1, per_page)))\<close>. The quotient is the exact one: for
  a list length below \<open>2\<^sup>5\<^sup>3\<close> the float quotient has the same ceiling.
\<close>

definition total_pages :: "string list \<Rightarrow> string \<Rightarrow> int \<Rightarrow> int" where
  "total_pages tickers always_keep page_size =
     max 1 \<lceil>real (length (others tickers always_keep))
              / real_of_int (max 1 (per_page tickers always_keep page_size))\<rceil>"

definition select_page :: "string list \<Rightarrow> string \<Rightarrow> int \<Rightarrow> int \<Rightarrow> string list" where
  "select_page tickers always_keep page_size page =
     (let page = max 1 (min page (total_pages tickers always_keep page_size));
          start_idx = (page - 1) * per_page tickers always_keep page_size;
          end_idx = start_idx + per_page tickers always_keep page_size;
          page_others = py_slice (others tickers always_keep) start_idx end_idx;
          sel = (if has_keep tickers always_keep then always_keep # page_others else page_others)
      in sort sel)"

section \<open>Navigation\<close>












section \<open>Page count\<close>


lemma ceiling_quotient_pos:
  assumes "1 \<le> (n::nat)" "1 \<le> (d::int)"
  shows "1 \<le> \<lceil>real n / real_of_int d\<rceil>"
proof -
  have "0 < real n / real_of_int d" using assms by simp
  then have "0 < \<lceil>real n / real_of_int d\<rceil>" by (simp only: zero_less_ceiling)
  then show ?thesis by simp
qed

text \<open>
  C1 (as amended). With the pinned ticker among the filtered tickers, \<open>N\<close> other tickers and a
  page size \<open>P\<close> of at least 2, the page count is \<open>max 1 \<lceil>N / (P - 1)\<rceil>\<close>; it is
  \<open>\<lceil>N / (P - 1)\<rceil>\<close> as soon as there is one other ticker.
\<close>

theorem total_pages_pinned:
  assumes "always_keep \<in> set tickers" and "2 \<le> page_size"
  shows "total_pages tickers always_keep page_size =
           max 1 \<lceil>real (length (others tickers always_keep)) / real_of_int (page_size - 1)\<rceil>
         \<and> (1 \<le> length (others tickers always_keep) \<longrightarrow>
              total_pages tickers always_keep page_size =
                \<lceil>real (length (others tickers always_keep)) / real_of_int (page_size - 1)\<rceil>)"
proof -
  have pp: "max 1 (per_page tickers always_keep page_size) = page_size - 1"
    using assms by (simp add: per_page_def has_keep_def)
  have 1: "total_pages tickers always_keep page_size =
           max 1 \<lceil>real (length (others tickers always_keep)) / real_of_int (page_size - 1)\<rceil>"
    by (simp only: total_pages_def pp)
  have "1 \<le> \<lceil>real (length (others tickers always_keep)) / real_of_int (page_size - 1)\<rceil>"
    if "1 \<le> length (others tickers always_keep)"
    using that assms(2) by (intro ceiling_quotient_pos) simp_all
  with 1 show ?thesis by (simp add: max_def)
qed

theorem total_pages_pinned_witness:
  "''A'' \<in> set [''A'', ''B'', ''C'', ''D'', ''E''] \<and> (2::int) \<le> 3 \<and>
   1 \<le> length (others [''A'', ''B'', ''C'', ''D'', ''E''] ''A'') \<and>
   total_pages [''A'', ''B'', ''C'', ''D'', ''E''] ''A'' 3 = 2 \<and>
   \<lceil>real (length (others [''A'', ''B'', ''C'', ''D'', ''E''] ''A'')) / real_of_int (3 - 1)\<rceil> = 2"
proof -
  have h1: "''A'' \<in> set [''A'', ''B'', ''C'', ''D'', ''E'']" by simp
  have h2: "(2::int) \<le> 3" by simp
  have h3: "1 \<le> length (others [''A'', ''B'', ''C'', ''D'', ''E''] ''A'')"
    by (simp add: others_def)
  have c: "\<lceil>real (length (others [''A'', ''B'', ''C'', ''D'', ''E''] ''A'')) / real_of_int (3 - 1)\<rceil> = 2"
    by (simp add: others_def)
  show ?thesis using total_pages_pinned [OF h1 h2] h1 h3 c by simp
qed

text \<open>When the pinned ticker is the only ticker left, there is one page, not \<open>\<lceil>0 / 9\<rceil> = 0\<close>.\<close>

theorem total_pages_pinned_counterexample:
  "has_keep [''CNR.TO''] ''CNR.TO'' \<and>
   length (others [''CNR.TO''] ''CNR.TO'') = 0 \<and>
   total_pages [''CNR.TO''] ''CNR.TO'' 10 = 1 \<and>
   \<lceil>real (length (others [''CNR.TO''] ''CNR.TO'')) / real_of_int (10 - 1)\<rceil> = 0 \<and>
   total_pages [''CNR.TO''] ''CNR.TO'' 10 \<noteq>
     \<lceil>real (length (others [''CNR.TO''] ''CNR.TO'')) / real_of_int (10 - 1)\<rceil>"
  by (simp add: has_keep_def others_def total_pages_def per_page_def)

section \<open>Page counter\<close>








section \<open>Properties of the symbol normalizer\<close>

lemma endswith_append: "endswith (p @ suf) suf"
  by (simp add: endswith_def)

lemma endswith_iff: "endswith s suf \<longleftrightarrow> (\<exists>p. s = p @ suf)"
proof
  assume "endswith s suf"
  then have "s = take (length s - length suf) s @ suf"
    by (metis append_take_drop_id endswith_def)
  then show "\<exists>p. s = p @ suf" ..
next
  assume "\<exists>p. s = p @ suf"
  then show "endswith s suf" by (auto simp: endswith_def)
qed

lemma endswith_last: "endswith s suf \<Longrightarrow> suf \<noteq> [] \<Longrightarrow> last s = last suf"
  by (auto simp: endswith_iff)

lemma py_slice_drop_suffix:
  "suf \<noteq> [] \<Longrightarrow> int (length suf) = k \<Longrightarrow> py_slice (p @ suf) 0 (- k) = p"
  by (auto simp: py_slice_def slice_bound_def Let_def)










lemma not_endswith_TSXV: "\<not> endswith (p @ '':TSX'') '':TSXV''"
proof
  assume "endswith (p @ '':TSX'') '':TSXV''"
  then have "last (p @ '':TSX'') = last '':TSXV''" by (rule endswith_last) simp
  then show False by simp
qed

text \<open>
  C2. When the trimmed and upper-cased input is \<open>p\<close> followed by the qualifier \<^verbatim>\<open>:TSXV\<close>, the
  normalizer returns \<open>p\<close> followed by \<^verbatim>\<open>.V\<close>; when it is \<open>p\<close> followed by \<^verbatim>\<open>:TSX\<close>, it
  returns \<open>p\<close> followed by \<^verbatim>\<open>.TO\<close>.
\<close>

theorem map_to_yahoo_qualifier:
  "(upper (strip symbol) = p @ '':TSXV'' \<longrightarrow> map_to_yahoo symbol = p @ ''.V'') \<and>
   (upper (strip symbol) = p @ '':TSX'' \<longrightarrow> map_to_yahoo symbol = p @ ''.TO'')"
proof (intro conjI impI)
  assume s: "upper (strip symbol) = p @ '':TSXV''"
  have "py_slice (p @ '':TSXV'') 0 (- 5) = p" by (rule py_slice_drop_suffix) simp_all
  then show "map_to_yahoo symbol = p @ ''.V''"
    by (simp add: map_to_yahoo_def s endswith_append Let_def)
next
  assume s: "upper (strip symbol) = p @ '':TSX''"
  have "py_slice (p @ '':TSX'') 0 (- 4) = p" by (rule py_slice_drop_suffix) simp_all
  then show "map_to_yahoo symbol = p @ ''.TO''"
    by (simp add: map_to_yahoo_def s endswith_append not_endswith_TSXV Let_def)
qed

theorem map_to_yahoo_qualifier_witness:
  "upper (strip ''  shop:tsxv '') = ''SHOP'' @ '':TSXV'' \<and> map_to_yahoo ''  shop:tsxv '' = ''SHOP.V'' \<and>
   upper (strip ''ry:TSX'') = ''RY'' @ '':TSX'' \<and> map_to_yahoo ''ry:TSX'' = ''RY.TO''"
proof -
  have h1: "upper (strip ''  shop:tsxv '') = ''SHOP'' @ '':TSXV''" by code_simp
  have h2: "upper (strip ''ry:TSX'') = ''RY'' @ '':TSX''" by code_simp
  show ?thesis
    using map_to_yahoo_qualifier [of "''  shop:tsxv ''" "''SHOP''"]
      map_to_yahoo_qualifier [of "''ry:TSX''" "''RY''"] h1 h2
    by simp
qed










section \<open>Page selection\<close>

lemma length_py_slice:
  assumes "0 \<le> i" "i \<le> j"
  shows "int (length (py_slice xs i j)) \<le> j - i"
  using assms by (simp add: py_slice_def slice_bound_def Let_def)



lemma length_page_others:
  assumes "0 \<le> pp" "1 \<le> page"
  shows "int (length (py_slice xs ((page - 1) * pp) ((page - 1) * pp + pp))) \<le> pp"
proof -
  have "0 \<le> (page - 1) * pp" using assms by simp
  then have "int (length (py_slice xs ((page - 1) * pp) ((page - 1) * pp + pp)))
      \<le> ((page - 1) * pp + pp) - (page - 1) * pp"
    using assms(1) by (intro length_py_slice) simp_all
  then show ?thesis by simp
qed

text \<open>
  C9. For every page index, the selection has at most \<open>page_size\<close> tickers, for a page size
  of at least 1 (the control offers 5 to 25), and it contains the pinned ticker whenever the
  pinned ticker is among the filtered tickers.
\<close>

theorem select_page_bounded_pinned:
  "(1 \<le> page_size \<longrightarrow>
      int (length (select_page tickers always_keep page_size page)) \<le> page_size) \<and>
   (always_keep \<in> set tickers \<longrightarrow>
      always_keep \<in> set (select_page tickers always_keep page_size page))"
proof (intro conjI impI)
  assume p: "1 \<le> page_size"
  define c where "c = max 1 (min page (total_pages tickers always_keep page_size))"
  define pp where "pp = per_page tickers always_keep page_size"
  have c: "1 \<le> c" by (simp add: c_def)
  have pp: "0 \<le> pp" using p by (simp add: pp_def per_page_def)
  have "int (length (py_slice (others tickers always_keep) ((c - 1) * pp) ((c - 1) * pp + pp))) \<le> pp"
    using pp c by (rule length_page_others)
  then show "int (length (select_page tickers always_keep page_size page)) \<le> page_size"
    unfolding select_page_def Let_def c_def [symmetric] pp_def [symmetric]
    by (auto simp del: sort_key_simps simp add: pp_def per_page_def split: if_splits)
next
  assume "always_keep \<in> set tickers"
  then show "always_keep \<in> set (select_page tickers always_keep page_size page)"
    by (simp del: sort_key_simps add: select_page_def Let_def has_keep_def)
qed

theorem select_page_bounded_pinned_witness:
  "(1::int) \<le> 3 \<and> ''A'' \<in> set [''A'', ''B'', ''C'', ''D'', ''E''] \<and>
   select_page [''A'', ''B'', ''C'', ''D'', ''E''] ''A'' 3 2 = [''A'', ''D'', ''E''] \<and>
   int (length (select_page [''A'', ''B'', ''C'', ''D'', ''E''] ''A'' 3 2)) \<le> 3 \<and>
   ''A'' \<in> set (select_page [''A'', ''B'', ''C'', ''D'', ''E''] ''A'' 3 2)"
proof -
  have v: "select_page [''A'', ''B'', ''C'', ''D'', ''E''] ''A'' 3 2 = [''A'', ''D'', ''E'']"
    by code_simp
  show ?thesis
    using select_page_bounded_pinned [of 3 "[''A'', ''B'', ''C'', ''D'', ''E'']" "''A''" 2] v
    by simp
qed



section \<open>Properties of the reshaper\<close>

lemma select_rows_self: "select_rows (map P vs) vs = filter P vs"
  by (induction vs) (simp_all add: select_rows_def)

lemma select_rows_all:
  "length xs \<le> n \<Longrightarrow> select_rows (replicate n True) xs = xs"
proof (induction xs arbitrary: n)
  case Nil
  then show ?case by (simp add: select_rows_def)
next
  case (Cons x xs)
  then obtain m where "n = Suc m" by (cases n) auto
  with Cons show ?case by (simp add: select_rows_def)
qed

lemma length_select_rows:
  "length (select_rows flags xs) \<le> length (filter (\<lambda>b. b) flags)"
proof (induction flags arbitrary: xs)
  case Nil
  then show ?case by (simp add: select_rows_def)
next
  case (Cons b flags)
  show ?case
  proof (cases xs)
    case Nil
    then show ?thesis by (simp add: select_rows_def)
  next
    case (Cons y ys)
    with Cons.IH [of ys] show ?thesis by (simp add: select_rows_def)
  qed
qed

lemma keep_count:
  "length (filter (\<lambda>b. b) (map P vs)) = length (filter P vs)"
  by (induction vs) simp_all

lemma keep_again:
  "map (\<lambda>v. v \<noteq> NaN) (filter (\<lambda>v. v \<noteq> NaN) vs) = replicate (length (filter (\<lambda>v. v \<noteq> NaN) vs)) True"
  by (induction vs) simp_all

lemma select_rows_again:
  "select_rows (map (\<lambda>v. v \<noteq> NaN) (filter (\<lambda>v. v \<noteq> NaN) vs))
     (select_rows (map (\<lambda>v. v \<noteq> NaN) vs) xs) = select_rows (map (\<lambda>v. v \<noteq> NaN) vs) xs"
  unfolding keep_again
  by (rule select_rows_all) (metis keep_count length_select_rows)

lemma reset_index_unnamed:
  assumes "index_name t = None" "labels t = [''Date'', ''Ticker'', ''Adj Close'']"
  shows "\<exists>r. reset_index t = Inr r \<and> ''Adj Close'' \<in> set (labels r)"
proof -
  define r where "r = \<lparr>index_name = None, index = map int [0..<length (index t)],
                         columns = (''index'', map Ix (index t)) # columns t\<rparr>"
  have "''index'' \<notin> set (labels t)" by (simp add: assms(2))
  then have "reset_index t = Inr r" by (simp add: reset_index_def assms(1) r_def)
  moreover have "labels r = ''index'' # labels t" by (simp add: labels_def r_def)
  then have "''Adj Close'' \<in> set (labels r)" by (simp add: assms(2))
  ultimately show ?thesis by blast
qed

lemma melt_columns:
  assumes "melt ''Date'' ''Ticker'' ''Adj Close'' r = Inr m"
  shows "\<exists>ds ts vs. index_name m = None \<and>
           columns m = [(''Date'', ds), (''Ticker'', ts), (''Adj Close'', vs)]"
  using assms by (auto simp: melt_def Let_def split: if_splits option.splits)

text \<open>
  C4 (as amended). When the reshaper returns a table, that table has the columns
  \<^verbatim>\<open>Date\<close>, \<^verbatim>\<open>Ticker\<close> and \<^verbatim>\<open>Adj Close\<close> and no missing price: dropping the rows with a
  missing price again returns it unchanged. The reshaper itself does not accept its own
  result: a table that already has an \<^verbatim>\<open>Adj Close\<close> column is refused by the melt step.
\<close>

theorem tidy_from_wide_result:
  assumes "tidy_from_wide adj = Inr t"
  shows "labels t = [''Date'', ''Ticker'', ''Adj Close''] \<and>
         dropna_subset ''Adj Close'' t = Inr t \<and>
         tidy_from_wide t = Inl ValueError"
proof -
  from assms obtain r m where m: "melt ''Date'' ''Ticker'' ''Adj Close'' r = Inr m"
    and t: "dropna_subset ''Adj Close'' m = Inr t"
    by (auto simp: tidy_from_wide_def split: sum.splits)
  from melt_columns [OF m] obtain ds ts vs where n: "index_name m = None"
    and c: "columns m = [(''Date'', ds), (''Ticker'', ts), (''Adj Close'', vs)]" by blast
  define keep where "keep = map (\<lambda>v. v \<noteq> NaN) vs"
  have t_eq: "t = \<lparr>index_name = None, index = select_rows keep (index m),
      columns = [(''Date'', select_rows keep ds), (''Ticker'', select_rows keep ts),
                 (''Adj Close'', filter (\<lambda>v. v \<noteq> NaN) vs)]\<rparr>"
    using t by (simp add: dropna_subset_def c n keep_def select_rows_self Let_def)
  have 1: "labels t = [''Date'', ''Ticker'', ''Adj Close'']" by (simp add: t_eq labels_def)
  have 2: "dropna_subset ''Adj Close'' t = Inr t"
    by (simp add: dropna_subset_def t_eq keep_def select_rows_again select_rows_self Let_def)
  have "index_name t = None" by (simp add: t_eq)
  from reset_index_unnamed [OF this 1] obtain r' where
    r': "reset_index t = Inr r'" "''Adj Close'' \<in> set (labels r')" by blast
  then have 3: "tidy_from_wide t = Inl ValueError"
    by (simp add: tidy_from_wide_def melt_def)
  from 1 2 3 show ?thesis by simp
qed

lemma tidy_from_wide_example: "tidy_from_wide wide_example = Inr tidy_example"
  by (simp add: tidy_from_wide_def wide_example_def tidy_example_def reset_index_def labels_def
      melt_def dropna_subset_def select_rows_def)

theorem tidy_from_wide_result_witness:
  "tidy_from_wide wide_example = Inr tidy_example \<and>
   labels tidy_example = [''Date'', ''Ticker'', ''Adj Close''] \<and>
   dropna_subset ''Adj Close'' tidy_example = Inr tidy_example \<and>
   tidy_from_wide tidy_example = Inl ValueError"
  using tidy_from_wide_result [OF tidy_from_wide_example] tidy_from_wide_example by simp

text \<open>The tidy form of the one-price table is not a fixed point of the reshaper.\<close>

theorem tidy_from_wide_fixed_point_counterexample:
  "tidy_from_wide wide_example = Inr tidy_example \<and>
   tidy_from_wide tidy_example = Inl ValueError \<and>
   tidy_from_wide tidy_example \<noteq> Inr tidy_example"
  by (simp add: tidy_from_wide_def wide_example_def tidy_example_def reset_index_def labels_def
      melt_def dropna_subset_def select_rows_def)


section \<open>Properties of the filter\<close>

lemma group_prices:
  "set (map Adj_Close (filter (\<lambda>r. Ticker r = t) tidy)) = Adj_Close ` {q \<in> set tidy. Ticker q = t}"
  by auto

lemma set_max_by_ticker:
  "set (max_by_ticker tidy) =
     (\<lambda>t. (t, Max (Adj_Close ` {q \<in> set tidy. Ticker q = t}))) ` Ticker ` set tidy"
  by (simp add: max_by_ticker_def group_prices)

lemma set_to_remove:
  "set (to_remove filter_max tidy) =
     {t \<in> Ticker ` set tidy.
        real_of_int filter_max < Max (Adj_Close ` {q \<in> set tidy. Ticker q = t})}"
  unfolding to_remove_def set_map set_filter set_max_by_ticker by force

text \<open>
  C5. For every tidy table and every threshold, the filter keeps exactly the rows of the
  tickers whose largest price is not above the threshold, in their order; the tickers it
  removes are exactly those whose largest price is strictly above the threshold, and the
  tickers left for the paginator are all the others.
\<close>

theorem tidy_filtered_exact:
  "tidy_filtered filter_max tidy =
     filter (\<lambda>r. \<not> real_of_int filter_max
                      < Max (Adj_Close ` {q \<in> set tidy. Ticker q = Ticker r})) tidy \<and>
   set (to_remove filter_max tidy) =
     {t \<in> Ticker ` set tidy.
        real_of_int filter_max < Max (Adj_Close ` {q \<in> set tidy. Ticker q = t})} \<and>
   set (all_tickers (tidy_filtered filter_max tidy)) =
     {t \<in> Ticker ` set tidy.
        \<not> real_of_int filter_max < Max (Adj_Close ` {q \<in> set tidy. Ticker q = t})}"
proof -
  have 1: "tidy_filtered filter_max tidy =
     filter (\<lambda>r. \<not> real_of_int filter_max
                      < Max (Adj_Close ` {q \<in> set tidy. Ticker q = Ticker r})) tidy"
    unfolding tidy_filtered_def by (rule filter_cong) (auto simp: set_to_remove)
  have 3: "set (all_tickers (tidy_filtered filter_max tidy)) =
     {t \<in> Ticker ` set tidy.
        \<not> real_of_int filter_max < Max (Adj_Close ` {q \<in> set tidy. Ticker q = t})}"
    unfolding all_tickers_def 1 by auto
  from 1 set_to_remove 3 show ?thesis by blast
qed

lemma observations_example:
  "observations tidy_example = [\<lparr>Date = 0, Ticker = ''RY.TO'', Adj_Close = 100\<rparr>]"
  by (simp add: observations_def column_def tidy_example_def)

text \<open>Ticker \<^verbatim>\<open>B\<close> once traded at 11, above the threshold 10, and loses both of its rows.\<close>

lemma tidy_filtered_example: "tidy_filtered 10 [\<lparr>Date = 1, Ticker = ''A'', Adj_Close = 5\<rparr>, \<lparr>Date = 1, Ticker = ''B'', Adj_Close = 11\<rparr>, \<lparr>Date = 2, Ticker = ''B'', Adj_Close = 1\<rparr>, \<lparr>Date = 2, Ticker = ''A'', Adj_Close = 10\<rparr>]
  = [\<lparr>Date = 1, Ticker = ''A'', Adj_Close = 5\<rparr>, \<lparr>Date = 2, Ticker = ''A'', Adj_Close = 10\<rparr>]"
  by (simp add: tidy_filtered_def to_remove_def max_by_ticker_def)


section \<open>Empty download\<close>

text \<open>
  C7. For every date window and every provider, the downloader returns the empty table for
  an empty collection of tickers: the provider's answer is not part of the result.
\<close>

theorem download_prices_empty:
  "download_prices yf_download [] start end' = Inr empty_frame \<and>
   frame_empty (empty_frame :: string frame)"
  by (simp add: download_prices_def frame_empty_def empty_frame_def)

section \<open>Fallbacks of the ticker list loader\<close>






end
